theory Spec2Isabelle
  imports Complex_Main
begin

section \<open>The row-level-security policies of supabase/rls.sql\<close>

subsection \<open>SQL values and three-valued logic\<close>

text \<open>
  A nullable SQL value is an \<open>option\<close>; a SQL boolean is \<open>bool option\<close> with
  \<open>None\<close> for NULL. A policy expression lets a row through only when it evaluates to
  true, so NULL counts as a refusal.
\<close>

type_synonym uuid = nat
type_synonym sql_bool = "bool option"

definition sql_eq :: "'a option \<Rightarrow> 'a option \<Rightarrow> sql_bool" where
  "sql_eq a b = (case a of None \<Rightarrow> None
                 | Some x \<Rightarrow> (case b of None \<Rightarrow> None | Some y \<Rightarrow> Some (x = y)))"

definition sql_and :: "sql_bool \<Rightarrow> sql_bool \<Rightarrow> sql_bool" where
  "sql_and a b = (if a = Some False \<or> b = Some False then Some False
                  else if a = Some True \<and> b = Some True then Some True
                  else None)"

definition sql_or :: "sql_bool \<Rightarrow> sql_bool \<Rightarrow> sql_bool" where
  "sql_or a b = (if a = Some True \<or> b = Some True then Some True
                 else if a = Some False \<and> b = Some False then Some False
                 else None)"

definition sql_true :: "sql_bool \<Rightarrow> bool" where
  "sql_true v = (v = Some True)"

subsection \<open>Tables\<close>

text \<open>
  \<open>public.profiles\<close> (rls.sql lines 8-13): id is the primary key, email is nullable and
  unique, role is a non-null text restricted to 'user' and 'admin'.
\<close>

record profile =
  profile_id :: uuid
  email :: "string option"
  role :: string
  created_at :: nat

text \<open>\<open>public.categories\<close> (lines 145-149) and the products the client works with.\<close>

record category =
  category_id :: string
  category_name :: string

record product =
  product_id :: string
  product_name :: string
  product_category :: string

text \<open>\<open>public.orders\<close> (lines 200-208); only \<open>user_id\<close> is read by a policy.\<close>

record order_row =
  order_id :: uuid
  user_id :: uuid
  order_status :: string

text \<open>A row of \<open>storage.objects\<close>; only \<open>bucket_id\<close> is read by a policy.\<close>

record storage_object =
  object_name :: string
  bucket_id :: "string option"

datatype tbl = Profiles | Products | Categories | Orders | Storage_objects

datatype row =
    Profiles_row profile
  | Products_row product
  | Categories_row category
  | Orders_row order_row
  | Objects_row storage_object

fun table_of :: "row \<Rightarrow> tbl" where
  "table_of (Profiles_row _) = Profiles"
| "table_of (Products_row _) = Products"
| "table_of (Categories_row _) = Categories"
| "table_of (Orders_row _) = Orders"
| "table_of (Objects_row _) = Storage_objects"

text \<open>The persisted state the policies read: the profiles table.\<close>

record database =
  profiles :: "profile list"

text \<open>The primary key of profiles: no two rows share an id.\<close>

definition pk_profiles :: "database \<Rightarrow> bool" where
  "pk_profiles db = distinct (map profile_id (profiles db))"

definition rows_for :: "database \<Rightarrow> uuid \<Rightarrow> profile list" where
  "rows_for db i = filter (\<lambda>p. profile_id p = i) (profiles db)"

definition profile_role :: "database \<Rightarrow> uuid \<Rightarrow> string option" where
  "profile_role db i = map_option role (find (\<lambda>p. profile_id p = i) (profiles db))"

subsection \<open>The caller\<close>

text \<open>
  A request runs under a database role (\<open>anon\<close> without a session, \<open>authenticated\<close>
  with one) and \<open>auth.uid()\<close> is the identity of the session, NULL when there is none.
\<close>

datatype pg_role = Anon | Authenticated

record session =
  db_role :: pg_role
  uid :: "uuid option"

subsection \<open>\<open>public.is_admin()\<close> (lines 34-47)\<close>

text \<open>
  The function is \<open>security definer\<close>: it reads every row of profiles, whatever the
  caller may see. \<open>exists\<close> is never NULL; a row counts when its WHERE clause is true.
\<close>

definition admin_row :: "session \<Rightarrow> profile \<Rightarrow> sql_bool" where
  "admin_row s p = sql_and (sql_eq (Some (profile_id p)) (uid s))
                           (sql_eq (Some (role p)) (Some ''admin''))"

definition is_admin :: "session \<Rightarrow> database \<Rightarrow> bool" where
  "is_admin s db = list_ex (\<lambda>p. sql_true (admin_row s p)) (profiles db)"

subsection \<open>Policies\<close>

text \<open>
  A policy is written for one command on one table and granted to a role:
  \<open>for select\<close> and \<open>for delete\<close> carry a USING expression, \<open>for insert\<close> a
  WITH CHECK expression, \<open>for update\<close> both.
\<close>

datatype grantee = To_public | To_authenticated

type_synonym expr = "session \<Rightarrow> database \<Rightarrow> row \<Rightarrow> sql_bool"

datatype policy =
    For_select string tbl grantee expr
  | For_insert string tbl grantee expr
  | For_update string tbl grantee expr expr
  | For_delete string tbl grantee expr

text \<open>The expressions of the profiles policies (lines 51-84).\<close>

definition self_or_admin :: expr where
  "self_or_admin s db r = (case r of
     Profiles_row p \<Rightarrow> sql_or (sql_eq (Some (profile_id p)) (uid s)) (Some (is_admin s db))
   | _ \<Rightarrow> None)"

definition self_user_or_admin :: expr where
  "self_user_or_admin s db r = (case r of
     Profiles_row p \<Rightarrow>
       sql_or (sql_and (sql_eq (Some (profile_id p)) (uid s))
                       (sql_eq (Some (role p)) (Some ''user'')))
              (Some (is_admin s db))
   | _ \<Rightarrow> None)"

definition admin_only :: expr where
  "admin_only s db r = Some (is_admin s db)"

definition profiles_select_self_or_admin :: policy where
  "profiles_select_self_or_admin =
     For_select ''profiles_select_self_or_admin'' Profiles To_authenticated self_or_admin"

definition profiles_insert_self_user_or_admin :: policy where
  "profiles_insert_self_user_or_admin =
     For_insert ''profiles_insert_self_user_or_admin'' Profiles To_authenticated
       self_user_or_admin"

definition profiles_update_self_user_or_admin :: policy where
  "profiles_update_self_user_or_admin =
     For_update ''profiles_update_self_user_or_admin'' Profiles To_authenticated
       self_or_admin self_user_or_admin"

definition profiles_delete_admin_only :: policy where
  "profiles_delete_admin_only =
     For_delete ''profiles_delete_admin_only'' Profiles To_authenticated admin_only"

text \<open>
  The policies on products, orders and storage.objects do not call \<open>is_admin()\<close>: they
  repeat its query inline (for instance lines 101-106). An inline subquery runs with the
  caller's rights, so it sees only the profiles rows that the caller's select policies on
  profiles let through.
\<close>

definition granted :: "session \<Rightarrow> grantee \<Rightarrow> bool" where
  "granted s g = (g = To_public \<or> db_role s = Authenticated)"

definition visible_profiles :: "session \<Rightarrow> database \<Rightarrow> profile list" where
  "visible_profiles s db =
     filter (\<lambda>p. granted s To_authenticated \<and> sql_true (self_or_admin s db (Profiles_row p)))
       (profiles db)"

definition admin_profile_exists :: "session \<Rightarrow> database \<Rightarrow> bool" where
  "admin_profile_exists s db = list_ex (\<lambda>p. sql_true (admin_row s p)) (visible_profiles s db)"

definition true_expr :: expr where
  "true_expr s db r = Some True"

definition inline_admin_only :: expr where
  "inline_admin_only s db r = Some (admin_profile_exists s db)"

text \<open>Products (lines 86-143).\<close>

definition products_select_authenticated :: policy where
  "products_select_authenticated =
     For_select ''products_select_authenticated'' Products To_authenticated true_expr"

definition products_insert_admin_only :: policy where
  "products_insert_admin_only =
     For_insert ''products_insert_admin_only'' Products To_authenticated inline_admin_only"

definition products_update_admin_only :: policy where
  "products_update_admin_only =
     For_update ''products_update_admin_only'' Products To_authenticated
       inline_admin_only inline_admin_only"

definition products_delete_admin_only :: policy where
  "products_delete_admin_only =
     For_delete ''products_delete_admin_only'' Products To_authenticated inline_admin_only"

text \<open>Categories (lines 161-198).\<close>

definition categories_select_authenticated :: policy where
  "categories_select_authenticated =
     For_select ''categories_select_authenticated'' Categories To_authenticated true_expr"

definition categories_insert_admin_only :: policy where
  "categories_insert_admin_only =
     For_insert ''categories_insert_admin_only'' Categories To_authenticated admin_only"

definition categories_update_admin_only :: policy where
  "categories_update_admin_only =
     For_update ''categories_update_admin_only'' Categories To_authenticated
       admin_only admin_only"

definition categories_delete_admin_only :: policy where
  "categories_delete_admin_only =
     For_delete ''categories_delete_admin_only'' Categories To_authenticated admin_only"

text \<open>Orders (lines 214-280).\<close>

definition own_or_admin :: expr where
  "own_or_admin s db r = (case r of
     Orders_row ord \<Rightarrow> sql_or (sql_eq (Some (user_id ord)) (uid s)) (Some (admin_profile_exists s db))
   | _ \<Rightarrow> None)"

definition orders_select_own_or_admin :: policy where
  "orders_select_own_or_admin =
     For_select ''orders_select_own_or_admin'' Orders To_authenticated own_or_admin"

definition orders_insert_own_or_admin :: policy where
  "orders_insert_own_or_admin =
     For_insert ''orders_insert_own_or_admin'' Orders To_authenticated own_or_admin"

definition orders_update_admin_only :: policy where
  "orders_update_admin_only =
     For_update ''orders_update_admin_only'' Orders To_authenticated
       inline_admin_only inline_admin_only"

definition orders_delete_admin_only :: policy where
  "orders_delete_admin_only =
     For_delete ''orders_delete_admin_only'' Orders To_authenticated inline_admin_only"

text \<open>Storage objects of the product images bucket (lines 282-343).\<close>

definition in_product_images :: expr where
  "in_product_images s db r = (case r of
     Objects_row ob \<Rightarrow> sql_eq (bucket_id ob) (Some ''product-images'')
   | _ \<Rightarrow> None)"

definition in_product_images_and_admin :: expr where
  "in_product_images_and_admin s db r = (case r of
     Objects_row ob \<Rightarrow>
       sql_and (sql_eq (bucket_id ob) (Some ''product-images''))
               (Some (admin_profile_exists s db))
   | _ \<Rightarrow> None)"

definition product_images_select_public :: policy where
  "product_images_select_public =
     For_select ''product_images_select_public'' Storage_objects To_public in_product_images"

definition product_images_admin_insert :: policy where
  "product_images_admin_insert =
     For_insert ''product_images_admin_insert'' Storage_objects To_authenticated
       in_product_images_and_admin"

definition product_images_admin_update :: policy where
  "product_images_admin_update =
     For_update ''product_images_admin_update'' Storage_objects To_authenticated
       in_product_images_and_admin in_product_images_and_admin"

definition product_images_admin_delete :: policy where
  "product_images_admin_delete =
     For_delete ''product_images_admin_delete'' Storage_objects To_authenticated
       in_product_images_and_admin"

text \<open>Every policy the file creates, in the order of the file.\<close>

definition rls_policies :: "policy list" where
  "rls_policies =
    [profiles_select_self_or_admin, profiles_insert_self_user_or_admin,
     profiles_update_self_user_or_admin, profiles_delete_admin_only,
     products_select_authenticated, products_insert_admin_only,
     products_update_admin_only, products_delete_admin_only,
     categories_select_authenticated, categories_insert_admin_only,
     categories_update_admin_only, categories_delete_admin_only,
     orders_select_own_or_admin, orders_insert_own_or_admin,
     orders_update_admin_only, orders_delete_admin_only,
     product_images_select_public, product_images_admin_insert,
     product_images_admin_update, product_images_admin_delete]"

subsection \<open>Evaluation\<close>

text \<open>
  \<open>alter table ... enable row level security\<close> is run on profiles (line 49), products
  (line 86), categories (line 161) and orders (line 214). \<open>storage.objects\<close> belongs to
  the storage schema of the platform, which enforces row level security on it: the file
  only adds policies there (comment of lines 282-283).
\<close>

fun rls_enabled :: "tbl \<Rightarrow> bool" where
  "rls_enabled Profiles = True"
| "rls_enabled Products = True"
| "rls_enabled Categories = True"
| "rls_enabled Orders = True"
| "rls_enabled Storage_objects = True"

datatype request =
    Select_req row
  | Insert_req row
  | Update_req row row
  | Delete_req row

fun request_table :: "request \<Rightarrow> tbl" where
  "request_table (Select_req r) = table_of r"
| "request_table (Insert_req r) = table_of r"
| "request_table (Update_req old new) = table_of new"
| "request_table (Delete_req r) = table_of r"

datatype decision = ALLOW | DENY

text \<open>
  With row level security on, a row passes a command when some policy of that command on
  that table, granted to the caller's role, evaluates to true on it; with no such policy
  nothing passes. An update needs a USING expression true on the existing row and a
  WITH CHECK expression true on the new row.
\<close>

fun select_passes :: "session \<Rightarrow> database \<Rightarrow> row \<Rightarrow> policy \<Rightarrow> bool" where
  "select_passes s db r (For_select n t g u) =
     (t = table_of r \<and> granted s g \<and> sql_true (u s db r))"
| "select_passes s db r _ = False"

fun insert_passes :: "session \<Rightarrow> database \<Rightarrow> row \<Rightarrow> policy \<Rightarrow> bool" where
  "insert_passes s db r (For_insert n t g c) =
     (t = table_of r \<and> granted s g \<and> sql_true (c s db r))"
| "insert_passes s db r _ = False"

fun update_using_passes :: "session \<Rightarrow> database \<Rightarrow> row \<Rightarrow> policy \<Rightarrow> bool" where
  "update_using_passes s db r (For_update n t g u c) =
     (t = table_of r \<and> granted s g \<and> sql_true (u s db r))"
| "update_using_passes s db r _ = False"

fun update_check_passes :: "session \<Rightarrow> database \<Rightarrow> row \<Rightarrow> policy \<Rightarrow> bool" where
  "update_check_passes s db r (For_update n t g u c) =
     (t = table_of r \<and> granted s g \<and> sql_true (c s db r))"
| "update_check_passes s db r _ = False"

fun delete_passes :: "session \<Rightarrow> database \<Rightarrow> row \<Rightarrow> policy \<Rightarrow> bool" where
  "delete_passes s db r (For_delete n t g u) =
     (t = table_of r \<and> granted s g \<and> sql_true (u s db r))"
| "delete_passes s db r _ = False"

fun passes :: "policy list \<Rightarrow> session \<Rightarrow> database \<Rightarrow> request \<Rightarrow> bool" where
  "passes ps s db (Select_req r) = list_ex (select_passes s db r) ps"
| "passes ps s db (Insert_req r) = list_ex (insert_passes s db r) ps"
| "passes ps s db (Update_req old new) =
     (table_of old = table_of new \<and> list_ex (update_using_passes s db old) ps
        \<and> list_ex (update_check_passes s db new) ps)"
| "passes ps s db (Delete_req r) = list_ex (delete_passes s db r) ps"

definition evaluate :: "session \<Rightarrow> database \<Rightarrow> request \<Rightarrow> decision" where
  "evaluate s db req =
     (if \<not> rls_enabled (request_table req) then ALLOW
      else if passes rls_policies s db req then ALLOW else DENY)"


subsection \<open>Profile provisioning: \<open>public.handle_new_user()\<close> (lines 15-32)\<close>

datatype sql_error = Unique_violation string | Rls_violation string

text \<open>The row of \<open>auth.users\<close> whose insertion fires the trigger.\<close>

record auth_user =
  au_id :: uuid
  au_email :: "string option"

text \<open>
  \<open>email text unique\<close>: a non-null email held by a row other than \<open>i\<close> cannot be written
  to the row of \<open>i\<close>. NULL emails never collide.
\<close>

definition email_taken :: "database \<Rightarrow> string option \<Rightarrow> uuid \<Rightarrow> bool" where
  "email_taken db e i = (case e of None \<Rightarrow> False
     | Some a \<Rightarrow> list_ex (\<lambda>p. email p = Some a \<and> profile_id p \<noteq> i) (profiles db))"

text \<open>
  The trigger function is \<open>security definer\<close>, so no policy applies to its insert.
  \<open>on conflict (id) do nothing\<close> skips the insert when a row with that id exists; it does
  not cover the unique index on email, whose violation raises.
\<close>

definition handle_new_user :: "database \<Rightarrow> auth_user \<Rightarrow> nat \<Rightarrow> sql_error + database" where
  "handle_new_user db new now =
     (if list_ex (\<lambda>p. profile_id p = au_id new) (profiles db) then Inr db
      else if email_taken db (au_email new) (au_id new)
        then Inl (Unique_violation ''profiles_email_key'')
      else Inr (db\<lparr>profiles := profiles db @
             [\<lparr>profile_id = au_id new, email = au_email new, role = ''user'',
               created_at = now\<rparr>]\<rparr>))"

section \<open>The client: src/App.jsx\<close>

subsection \<open>Constants (lines 6-10)\<close>

text \<open>
  \<open>import.meta.env.VITE_SUPABASE_PRODUCT_IMAGE_BUCKET || "product-images"\<close>: the variable
  is a string or undefined, and the empty string is falsy.
\<close>

definition PRODUCT_IMAGE_BUCKET :: "string option \<Rightarrow> string" where
  "PRODUCT_IMAGE_BUCKET env = (case env of None \<Rightarrow> ''product-images''
     | Some v \<Rightarrow> if v = [] then ''product-images'' else v)"

definition ROLE_USER :: string where
  "ROLE_USER = ''user''"

definition ROLE_ADMIN :: string where
  "ROLE_ADMIN = ''admin''"

definition ROLE_FETCH_TIMEOUT_MS :: nat where
  "ROLE_FETCH_TIMEOUT_MS = 4000"

definition ORDER_STATUSES :: "string list" where
  "ORDER_STATUSES = [''Placed'', ''Processing'', ''Shipped'', ''Delivered'', ''Cancelled'']"

text \<open>
  The row that \<open>supabase.storage.from(PRODUCT_IMAGE_BUCKET).upload(imagePath, ...)\<close>
  (lines 530-532) asks the storage service to insert.
\<close>

definition upload_row :: "string option \<Rightarrow> string \<Rightarrow> row" where
  "upload_row env imagePath =
     Objects_row \<lparr>object_name = imagePath, bucket_id = Some (PRODUCT_IMAGE_BUCKET env)\<rparr>"

subsection \<open>\<open>ensureUserProfile\<close> (lines 12-24)\<close>

text \<open>
  \<open>authUser\<close> may be null and its id may be missing. The payload carries id and email
  only, so an inserted row takes the column default of role, 'user', and the update taken
  on a conflict on id sets id and email and nothing else. The statement runs with the
  caller's rights: the insert policy is checked on the proposed row before conflicts are
  looked for, and the update path checks the select and update policies on the existing
  row and the update policy on the new row. Any error is logged and the function returns
  normally.
\<close>

record js_user =
  js_id :: "uuid option"
  js_email :: "string option"

definition upsert_profile ::
  "session \<Rightarrow> database \<Rightarrow> uuid \<Rightarrow> string option \<Rightarrow> nat \<Rightarrow> sql_error + database" where
  "upsert_profile s db i e now =
     (let proposed = \<lparr>profile_id = i, email = e, role = ''user'', created_at = now\<rparr> in
      if evaluate s db (Insert_req (Profiles_row proposed)) \<noteq> ALLOW
        then Inl (Rls_violation ''profiles'')
      else (case find (\<lambda>p. profile_id p = i) (profiles db) of
        None \<Rightarrow>
          if email_taken db e i then Inl (Unique_violation ''profiles_email_key'')
          else Inr (db\<lparr>profiles := profiles db @ [proposed]\<rparr>)
      | Some old \<Rightarrow>
          if evaluate s db (Select_req (Profiles_row old)) \<noteq> ALLOW
             \<or> evaluate s db (Update_req (Profiles_row old) (Profiles_row (old\<lparr>email := e\<rparr>)))
                 \<noteq> ALLOW
            then Inl (Rls_violation ''profiles'')
          else if email_taken db e i then Inl (Unique_violation ''profiles_email_key'')
          else Inr (db\<lparr>profiles :=
                 map (\<lambda>p. if profile_id p = i then p\<lparr>email := e\<rparr> else p) (profiles db)\<rparr>)))"

text \<open>
  The result pairs whether an error was logged with the database afterwards.
  \<open>has_supabase\<close> is whether the client object exists, \<open>reachable\<close> whether the request
  gets to the database at all.
\<close>

definition ensureUserProfile ::
  "bool \<Rightarrow> bool \<Rightarrow> session \<Rightarrow> database \<Rightarrow> js_user option \<Rightarrow> nat \<Rightarrow> bool \<times> database" where
  "ensureUserProfile has_supabase reachable s db authUser now =
     (if \<not> has_supabase then (False, db)
      else (case authUser of None \<Rightarrow> (False, db)
        | Some u \<Rightarrow> (case js_id u of None \<Rightarrow> (False, db)
          | Some i \<Rightarrow>
              if \<not> reachable then (True, db)
              else (case upsert_profile s db i (js_email u) now of
                  Inl err \<Rightarrow> (True, db)
                | Inr db' \<Rightarrow> (False, db')))))"

subsection \<open>\<open>getUserRole\<close> (lines 26-41)\<close>

definition toLowerCase :: "string \<Rightarrow> string" where
  "toLowerCase str = map (\<lambda>c. case map_of (zip ''ABCDEFGHIJKLMNOPQRSTUVWXYZ''
                                              ''abcdefghijklmnopqrstuvwxyz'') c of
                               None \<Rightarrow> c | Some l \<Rightarrow> l) str"

text \<open>
  \<open>select role from profiles where id = authUser.id\<close> sees the rows the caller may select;
  \<open>maybeSingle()\<close> gives null for no row, the row for one, an error for more.
  The result is the role and the database afterwards (a missing row triggers
  \<open>ensureUserProfile\<close>).
\<close>

definition getUserRole ::
  "bool \<Rightarrow> bool \<Rightarrow> session \<Rightarrow> database \<Rightarrow> js_user option \<Rightarrow> nat \<Rightarrow> string \<times> database" where
  "getUserRole has_supabase reachable s db authUser now =
     (if \<not> has_supabase then (ROLE_USER, db)
      else (case authUser of None \<Rightarrow> (ROLE_USER, db)
        | Some u \<Rightarrow> (case js_id u of None \<Rightarrow> (ROLE_USER, db)
          | Some i \<Rightarrow>
              if \<not> reachable then (ROLE_USER, db)
              else (case filter (\<lambda>p. profile_id p = i) (visible_profiles s db) of
                  [] \<Rightarrow> (ROLE_USER, snd (ensureUserProfile has_supabase reachable s db authUser now))
                | [p] \<Rightarrow>
                    (if toLowerCase (if role p = [] then ROLE_USER else role p) = ROLE_ADMIN
                     then ROLE_ADMIN else ROLE_USER, db)
                | _ \<Rightarrow> (ROLE_USER, db)))))"

subsection \<open>\<open>getUserRoleWithTimeout\<close> (lines 43-60)\<close>

text \<open>
  \<open>Promise.race\<close> takes the promise that settles first. The lookup either settles at
  some time (in milliseconds after the call) with a role, or never does; the timer
  promise resolves to the fallback role at \<open>timeoutMs\<close>. The lookup is listed first in the
  race and wins when both are settled at the same time.
\<close>

datatype 'a settlement = Settles_at nat 'a | Never_settles

definition getUserRoleWithTimeout :: "string settlement \<Rightarrow> nat \<Rightarrow> string" where
  "getUserRoleWithTimeout lookup timeoutMs =
     (let fallbackRole = ROLE_USER in
      case lookup of
        Never_settles \<Rightarrow> fallbackRole
      | Settles_at t r \<Rightarrow> if t \<le> timeoutMs then r else fallbackRole)"

subsection \<open>\<open>normalizeOrder\<close> (lines 85-95)\<close>

text \<open>
  JavaScript values. A number is NaN, an infinity or a finite value (the two zeros are
  not told apart). Objects are opaque references.
\<close>

datatype jsnum = NaN | PosInf | NegInf | Fin real

datatype jsval = Undefined | Null | Bool bool | Num jsnum | Str string | Obj nat

text \<open>
  What the function needs from the host: the conversion of strings and of objects to
  numbers, the conversion of numbers and objects to strings, and today's date as
  \<open>new Date().toISOString().slice(0, 10)\<close> gives it.
\<close>

record host =
  str_to_num :: "string \<Rightarrow> jsnum"
  obj_to_num :: "nat \<Rightarrow> jsnum"
  num_to_str :: "jsnum \<Rightarrow> string"
  obj_to_str :: "nat \<Rightarrow> string"
  today :: string

fun Number :: "host \<Rightarrow> jsval \<Rightarrow> jsnum" where
  "Number h Undefined = NaN"
| "Number h Null = Fin 0"
| "Number h (Bool b) = Fin (if b then 1 else 0)"
| "Number h (Num n) = n"
| "Number h (Str str) = str_to_num h str"
| "Number h (Obj ref) = obj_to_num h ref"

fun String :: "host \<Rightarrow> jsval \<Rightarrow> string" where
  "String h Undefined = ''undefined''"
| "String h Null = ''null''"
| "String h (Bool b) = (if b then ''true'' else ''false'')"
| "String h (Num n) = num_to_str h n"
| "String h (Str str) = str"
| "String h (Obj ref) = obj_to_str h ref"

fun truthy :: "jsval \<Rightarrow> bool" where
  "truthy Undefined = False"
| "truthy Null = False"
| "truthy (Bool b) = b"
| "truthy (Num n) = (n \<noteq> NaN \<and> n \<noteq> Fin 0)"
| "truthy (Str str) = (str \<noteq> [])"
| "truthy (Obj ref) = True"

text \<open>\<open>a || b\<close> and \<open>a ?? b\<close>.\<close>

definition js_or :: "jsval \<Rightarrow> jsval \<Rightarrow> jsval" where
  "js_or a b = (if truthy a then a else b)"

definition nullish :: "jsval \<Rightarrow> jsval \<Rightarrow> jsval" where
  "nullish a b = (if a = Undefined \<or> a = Null then b else a)"

text \<open>\<open>Number(x) || 0\<close>, a number on both sides.\<close>

definition num_or_zero :: "jsnum \<Rightarrow> jsnum" where
  "num_or_zero n = (if n \<noteq> NaN \<and> n \<noteq> Fin 0 then n else Fin 0)"

text \<open>
  The fields of \<open>order\<close> that the function reads, \<open>Undefined\<close> when absent;
  \<open>o_profiles_email\<close> is the value of \<open>order.profiles?.email\<close>.
\<close>

record order_input =
  o_id :: jsval
  o_status :: jsval
  o_order_date :: jsval
  o_date :: jsval
  o_total :: jsval
  o_items_count :: jsval
  o_items :: jsval
  o_user_id :: jsval
  o_profiles_email :: jsval

record order_fallback =
  f_userId :: jsval
  f_userEmail :: jsval

record normalized_order =
  n_id :: string
  n_status :: jsval
  n_date :: jsval
  n_total :: jsnum
  n_items :: jsnum
  n_userId :: jsval
  n_userEmail :: jsval

text \<open>\<open>ORDER_STATUSES.includes(x)\<close>: \<open>x\<close> is one of the five strings.\<close>

definition includes_status :: "jsval \<Rightarrow> bool" where
  "includes_status x = (x \<in> set (map Str ORDER_STATUSES))"

definition normalizeOrder :: "host \<Rightarrow> order_input \<Rightarrow> order_fallback \<Rightarrow> normalized_order" where
  "normalizeOrder h order fallback =
     \<lparr>n_id = String h (o_id order),
      n_status = (if includes_status (o_status order) then o_status order else Str ''Placed''),
      n_date = js_or (js_or (o_order_date order) (o_date order)) (Str (today h)),
      n_total = num_or_zero (Number h (o_total order)),
      n_items = num_or_zero (Number h (nullish (o_items_count order) (o_items order))),
      n_userId = js_or (js_or (o_user_id order) (f_userId fallback)) Null,
      n_userEmail = js_or (js_or (o_profiles_email order) (f_userEmail fallback))
                      (Str ''Unknown'')\<rparr>"

subsection \<open>\<open>removeCategory\<close> (lines 480-507)\<close>

text \<open>The view state that the handler reads and sets.\<close>

record storefront =
  categories :: "category list"
  products :: "product list"
  selectedCategory :: string
  newProductCategory :: string
  adminMessage :: string

text \<open>
  \<open>has_supabase\<close> is \<open>hasSupabaseConfig && supabase\<close>; \<open>delete_error\<close> is the error
  message of the delete request sent to the database, if it fails.
\<close>

definition removeCategory ::
  "bool \<Rightarrow> string option \<Rightarrow> storefront \<Rightarrow> string \<Rightarrow> storefront" where
  "removeCategory has_supabase delete_error st categoryId =
     (case find (\<lambda>item. category_id item = categoryId) (categories st) of
        None \<Rightarrow> st
      | Some category \<Rightarrow>
          if list_ex (\<lambda>product. product_category product = category_name category) (products st)
            then st\<lparr>adminMessage :=
                      ''Cannot delete a category that is used by existing products.''\<rparr>
          else (case (if has_supabase then delete_error else None) of
            Some message \<Rightarrow> st\<lparr>adminMessage := ''Failed to remove category: '' @ message\<rparr>
          | None \<Rightarrow>
              (let remainingCategories =
                     filter (\<lambda>item. category_id item \<noteq> categoryId) (categories st)
               in st\<lparr>categories := remainingCategories,
                     selectedCategory :=
                       (if selectedCategory st = category_name category then ''All''
                        else selectedCategory st),
                     newProductCategory :=
                       (if newProductCategory st = category_name category
                        then (case remainingCategories of [] \<Rightarrow> []
                              | c # _ \<Rightarrow> category_name c)
                        else newProductCategory st),
                     adminMessage := ''Category removed.''\<rparr>)))"

subsection \<open>The decision table, as far as it does not read the caller's role\<close>

text \<open>
  The requests that the policies grant on the identity of the caller alone, without
  consulting the role stored in profiles.
\<close>

fun role_free_grant :: "session \<Rightarrow> request \<Rightarrow> bool" where
  "role_free_grant s (Select_req (Profiles_row p)) =
     (db_role s = Authenticated \<and> uid s = Some (profile_id p))"
| "role_free_grant s (Select_req (Products_row p)) = (db_role s = Authenticated)"
| "role_free_grant s (Select_req (Categories_row c)) = (db_role s = Authenticated)"
| "role_free_grant s (Select_req (Orders_row ord)) =
     (db_role s = Authenticated \<and> uid s = Some (user_id ord))"
| "role_free_grant s (Select_req (Objects_row ob)) = (bucket_id ob = Some ''product-images'')"
| "role_free_grant s (Insert_req (Profiles_row p)) =
     (db_role s = Authenticated \<and> uid s = Some (profile_id p) \<and> role p = ''user'')"
| "role_free_grant s (Insert_req (Orders_row ord)) =
     (db_role s = Authenticated \<and> uid s = Some (user_id ord))"
| "role_free_grant s (Update_req (Profiles_row old) (Profiles_row new)) =
     (db_role s = Authenticated \<and> uid s = Some (profile_id old)
        \<and> uid s = Some (profile_id new) \<and> role new = ''user'')"
| "role_free_grant s _ = False"

text \<open>A request is allowed by one policy when that policy alone lets it through.\<close>

fun allowed_by :: "session \<Rightarrow> database \<Rightarrow> request \<Rightarrow> policy \<Rightarrow> bool" where
  "allowed_by s db (Select_req r) p = select_passes s db r p"
| "allowed_by s db (Insert_req r) p = insert_passes s db r p"
| "allowed_by s db (Update_req old new) p =
     (update_using_passes s db old p \<and> update_check_passes s db new p)"
| "allowed_by s db (Delete_req r) p = delete_passes s db r p"

section \<open>Properties of the policies\<close>

subsection \<open>Auxiliary facts\<close>

lemma sql_true_simps:
  "sql_true (Some b) = b" "sql_true None = False"
  by (simp_all add: sql_true_def)

lemma sql_true_eq: "sql_true (sql_eq a b) \<longleftrightarrow> (\<exists>x. a = Some x \<and> b = Some x)"
  by (auto simp: sql_true_def sql_eq_def split: option.splits)

lemma sql_true_and: "sql_true (sql_and a b) \<longleftrightarrow> sql_true a \<and> sql_true b"
  by (auto simp: sql_true_def sql_and_def)

lemma sql_true_or: "sql_true (sql_or a b) \<longleftrightarrow> sql_true a \<or> sql_true b"
  by (auto simp: sql_true_def sql_or_def)

lemma is_admin_iff:
  "is_admin s db \<longleftrightarrow> (\<exists>p \<in> set (profiles db). uid s = Some (profile_id p) \<and> role p = ''admin'')"
  by (auto simp: is_admin_def admin_row_def list_ex_iff sql_true_and sql_true_eq)

lemma admin_profile_exists_iff:
  "admin_profile_exists s db \<longleftrightarrow> db_role s = Authenticated \<and> is_admin s db"
  by (auto simp: admin_profile_exists_def visible_profiles_def list_ex_iff granted_def
        self_or_admin_def sql_true_or sql_true_eq sql_true_simps is_admin_def admin_row_def sql_true_and)

lemma rls_enabled_all: "rls_enabled t"
  by (cases t) simp_all

lemmas policy_defs =
  profiles_select_self_or_admin_def profiles_insert_self_user_or_admin_def
  profiles_update_self_user_or_admin_def profiles_delete_admin_only_def
  products_select_authenticated_def products_insert_admin_only_def
  products_update_admin_only_def products_delete_admin_only_def
  categories_select_authenticated_def categories_insert_admin_only_def
  categories_update_admin_only_def categories_delete_admin_only_def
  orders_select_own_or_admin_def orders_insert_own_or_admin_def
  orders_update_admin_only_def orders_delete_admin_only_def
  product_images_select_public_def product_images_admin_insert_def
  product_images_admin_update_def product_images_admin_delete_def

lemmas expr_defs =
  self_or_admin_def self_user_or_admin_def admin_only_def true_expr_def
  inline_admin_only_def own_or_admin_def in_product_images_def
  in_product_images_and_admin_def

lemmas eval_simps = evaluate_def rls_policies_def policy_defs expr_defs granted_def
  sql_true_or sql_true_and sql_true_eq sql_true_simps admin_profile_exists_iff

text \<open>The decision table that the policies amount to.\<close>

lemma evaluate_select:
  "evaluate s db (Select_req (Profiles_row p)) = ALLOW \<longleftrightarrow>
     db_role s = Authenticated \<and> (uid s = Some (profile_id p) \<or> is_admin s db)"
  "evaluate s db (Select_req (Products_row pr)) = ALLOW \<longleftrightarrow> db_role s = Authenticated"
  "evaluate s db (Select_req (Categories_row c)) = ALLOW \<longleftrightarrow> db_role s = Authenticated"
  "evaluate s db (Select_req (Orders_row ord)) = ALLOW \<longleftrightarrow>
     db_role s = Authenticated \<and> (uid s = Some (user_id ord) \<or> is_admin s db)"
  "evaluate s db (Select_req (Objects_row ob)) = ALLOW \<longleftrightarrow> bucket_id ob = Some ''product-images''"
  by (auto simp: eval_simps)

lemma evaluate_insert:
  "evaluate s db (Insert_req (Profiles_row p)) = ALLOW \<longleftrightarrow>
     db_role s = Authenticated \<and> (uid s = Some (profile_id p) \<and> role p = ''user'' \<or> is_admin s db)"
  "evaluate s db (Insert_req (Products_row pr)) = ALLOW \<longleftrightarrow> db_role s = Authenticated \<and> is_admin s db"
  "evaluate s db (Insert_req (Categories_row c)) = ALLOW \<longleftrightarrow> db_role s = Authenticated \<and> is_admin s db"
  "evaluate s db (Insert_req (Orders_row ord)) = ALLOW \<longleftrightarrow>
     db_role s = Authenticated \<and> (uid s = Some (user_id ord) \<or> is_admin s db)"
  "evaluate s db (Insert_req (Objects_row ob)) = ALLOW \<longleftrightarrow>
     db_role s = Authenticated \<and> is_admin s db \<and> bucket_id ob = Some ''product-images''"
  by (auto simp: eval_simps)

lemma evaluate_delete:
  "evaluate s db (Delete_req (Profiles_row p)) = ALLOW \<longleftrightarrow> db_role s = Authenticated \<and> is_admin s db"
  "evaluate s db (Delete_req (Products_row pr)) = ALLOW \<longleftrightarrow> db_role s = Authenticated \<and> is_admin s db"
  "evaluate s db (Delete_req (Categories_row c)) = ALLOW \<longleftrightarrow> db_role s = Authenticated \<and> is_admin s db"
  "evaluate s db (Delete_req (Orders_row ord)) = ALLOW \<longleftrightarrow> db_role s = Authenticated \<and> is_admin s db"
  "evaluate s db (Delete_req (Objects_row ob)) = ALLOW \<longleftrightarrow>
     db_role s = Authenticated \<and> is_admin s db \<and> bucket_id ob = Some ''product-images''"
  by (auto simp: eval_simps)

lemma evaluate_update:
  "evaluate s db (Update_req (Profiles_row old) (Profiles_row new)) = ALLOW \<longleftrightarrow>
     db_role s = Authenticated \<and> (uid s = Some (profile_id old) \<or> is_admin s db)
     \<and> (uid s = Some (profile_id new) \<and> role new = ''user'' \<or> is_admin s db)"
  "evaluate s db (Update_req (Products_row pr) (Products_row pr')) = ALLOW \<longleftrightarrow>
     db_role s = Authenticated \<and> is_admin s db"
  "evaluate s db (Update_req (Categories_row c) (Categories_row c')) = ALLOW \<longleftrightarrow>
     db_role s = Authenticated \<and> is_admin s db"
  "evaluate s db (Update_req (Orders_row ord) (Orders_row ord')) = ALLOW \<longleftrightarrow>
     db_role s = Authenticated \<and> is_admin s db"
  "evaluate s db (Update_req (Objects_row ob) (Objects_row ob')) = ALLOW \<longleftrightarrow>
     db_role s = Authenticated \<and> is_admin s db \<and> bucket_id ob = Some ''product-images''
       \<and> bucket_id ob' = Some ''product-images''"
  by (auto simp: eval_simps)

lemma evaluate_update_tables:
  "table_of old \<noteq> table_of new \<Longrightarrow> evaluate s db (Update_req old new) = DENY"
  by (simp add: evaluate_def rls_enabled_all)

lemma decision_cases: "d \<noteq> ALLOW \<longleftrightarrow> d = DENY"
  by (cases d) simp_all

text \<open>
  An update or a delete that reads the row it changes is also subject to the select
  policies. Here that adds nothing: whatever passes the USING expression of an update or
  delete policy passes the select policy of its table.
\<close>

lemma select_implied_by_update:
  "evaluate s db (Update_req old new) = ALLOW \<Longrightarrow> evaluate s db (Select_req old) = ALLOW"
  by (cases old; cases new)
    (auto simp: evaluate_update evaluate_select evaluate_update_tables)

lemma select_implied_by_delete:
  "evaluate s db (Delete_req r) = ALLOW \<Longrightarrow> evaluate s db (Select_req r) = ALLOW"
  by (cases r) (auto simp: evaluate_delete evaluate_select)

lemma find_unique:
  assumes "distinct (map f xs)" "find (\<lambda>p. f p = i) xs = Some p" "q \<in> set xs" "f q = i"
  shows "q = p"
proof -
  from assms(2) have "p \<in> set xs" "f p = i"
    by (auto simp: find_Some_iff)
  with assms(1,3,4) show ?thesis
    by (auto simp: distinct_map dest: inj_onD)
qed

lemma stored_role_not_admin:
  assumes "pk_profiles db" "profile_role db i = Some r" "r \<noteq> ''admin''" "uid s = Some i"
  shows "\<not> is_admin s db"
proof
  assume "is_admin s db"
  then obtain q where q: "q \<in> set (profiles db)" "profile_id q = i" "role q = ''admin''"
    using assms(4) by (auto simp: is_admin_iff)
  from assms(2) obtain p where p: "find (\<lambda>p. profile_id p = i) (profiles db) = Some p" "role p = r"
    by (auto simp: profile_role_def)
  from assms(1) have "distinct (map profile_id (profiles db))"
    by (simp add: pk_profiles_def)
  from find_unique[OF this p(1) q(1) q(2)] q(3) p(2) assms(3) show False
    by simp
qed

lemma stored_role_admin:
  assumes "profile_role db i = Some ''admin''" "uid s = Some i"
  shows "is_admin s db"
  using assms by (auto simp: profile_role_def is_admin_iff find_Some_iff)

subsection \<open>Self-promotion\<close>

text \<open>
  Claim C1. An authenticated caller \<open>i\<close> whose stored profile role is 'user' is denied
  the update of its own profile row that writes the row with id \<open>i\<close> and role 'admin', and
  is allowed the update that writes the row with id \<open>i\<close> and role 'user'. The caller, the
  stored state and the existing row are the same in both requests: the decision turns on
  the role field of the submitted row.
\<close>

theorem profile_update_self_promotion_blocked:
  assumes "pk_profiles db" and "profile_role db i = Some ''user''"
    and "db_role s = Authenticated" and "uid s = Some i" and "profile_id own = i"
  shows "evaluate s db (Update_req (Profiles_row own)
           (Profiles_row \<lparr>profile_id = i, email = e, role = ''admin'', created_at = t\<rparr>)) = DENY
       \<and> evaluate s db (Update_req (Profiles_row own)
           (Profiles_row \<lparr>profile_id = i, email = e, role = ''user'', created_at = t\<rparr>)) = ALLOW"
proof -
  have "\<not> is_admin s db"
    using stored_role_not_admin[OF assms(1,2) _ assms(4)] by simp
  then show ?thesis
    using assms(3,4,5) by (simp add: evaluate_update flip: decision_cases)
qed

theorem profile_update_self_promotion_blocked_witness:
  "evaluate \<lparr>db_role = Authenticated, uid = Some 7\<rparr>
      \<lparr>profiles = [\<lparr>profile_id = 7, email = None, role = ''user'', created_at = 0\<rparr>]\<rparr>
      (Update_req (Profiles_row \<lparr>profile_id = 7, email = None, role = ''user'', created_at = 0\<rparr>)
         (Profiles_row \<lparr>profile_id = 7, email = None, role = ''admin'', created_at = 0\<rparr>)) = DENY
   \<and> evaluate \<lparr>db_role = Authenticated, uid = Some 7\<rparr>
      \<lparr>profiles = [\<lparr>profile_id = 7, email = None, role = ''user'', created_at = 0\<rparr>]\<rparr>
      (Update_req (Profiles_row \<lparr>profile_id = 7, email = None, role = ''user'', created_at = 0\<rparr>)
         (Profiles_row \<lparr>profile_id = 7, email = None, role = ''user'', created_at = 0\<rparr>)) = ALLOW"
  using profile_update_self_promotion_blocked
    [of "\<lparr>profiles = [\<lparr>profile_id = 7, email = None, role = ''user'', created_at = 0\<rparr>]\<rparr>"
        7 "\<lparr>db_role = Authenticated, uid = Some 7\<rparr>"
        "\<lparr>profile_id = 7, email = None, role = ''user'', created_at = 0\<rparr>" None 0]
  by (simp add: pk_profiles_def profile_role_def)

subsection \<open>Anonymous callers\<close>

text \<open>
  Claim C5. A caller without a session (database role anon) is denied select on every
  product row and allowed select on every storage object of the bucket 'product-images'.
\<close>

theorem anon_product_denied_image_allowed:
  assumes "db_role s = Anon"
  shows "evaluate s db (Select_req (Products_row p)) = DENY
       \<and> (bucket_id ob = Some ''product-images'' \<longrightarrow>
            evaluate s db (Select_req (Objects_row ob)) = ALLOW)"
  using assms by (simp add: evaluate_select flip: decision_cases)

theorem anon_product_denied_image_allowed_witness:
  "evaluate \<lparr>db_role = Anon, uid = None\<rparr> \<lparr>profiles = []\<rparr>
      (Select_req (Products_row \<lparr>product_id = ''p-1'', product_name = ''Shoe'',
         product_category = ''Sneakers''\<rparr>)) = DENY
   \<and> evaluate \<lparr>db_role = Anon, uid = None\<rparr> \<lparr>profiles = []\<rparr>
      (Select_req (Objects_row \<lparr>object_name = ''products/1.jpg'',
         bucket_id = Some ''product-images''\<rparr>)) = ALLOW"
  using anon_product_denied_image_allowed
    [of "\<lparr>db_role = Anon, uid = None\<rparr>" "\<lparr>profiles = []\<rparr>"
        "\<lparr>product_id = ''p-1'', product_name = ''Shoe'', product_category = ''Sneakers''\<rparr>"
        "\<lparr>object_name = ''products/1.jpg'', bucket_id = Some ''product-images''\<rparr>"]
  by simp

lemma only_policy_of_update:
  assumes "list_ex (update_using_passes s db old) rls_policies"
    and "list_ex (update_check_passes s db new) rls_policies"
    and "table_of old = table_of new"
  shows "\<exists>p \<in> set rls_policies. update_using_passes s db old p \<and> update_check_passes s db new p"
  using assms
  by (cases old; cases new) (simp_all add: rls_policies_def policy_defs)

lemma evaluate_iff_passes: "evaluate s db req = ALLOW \<longleftrightarrow> passes rls_policies s db req"
  by (simp add: evaluate_def rls_enabled_all)

lemma passes_iff_allowed_by:
  "passes rls_policies s db req \<longleftrightarrow> (\<exists>p \<in> set rls_policies. allowed_by s db req p)"
proof (cases req)
  case (Update_req old new)
  show ?thesis
  proof
    assume "passes rls_policies s db req"
    with Update_req only_policy_of_update[of s db old new] show "\<exists>p \<in> set rls_policies. allowed_by s db req p"
      by simp
  next
    assume "\<exists>p \<in> set rls_policies. allowed_by s db req p"
    then obtain p where p: "p \<in> set rls_policies" "update_using_passes s db old p"
        "update_check_passes s db new p"
      using Update_req by auto
    from p(2,3) have "table_of old = table_of new"
      by (cases p) simp_all
    with p Update_req show "passes rls_policies s db req"
      by (auto simp: list_ex_iff)
  qed
qed (simp_all add: list_ex_iff)

lemma anon_denied_on_tables:
  assumes "db_role s = Anon" "request_table req \<noteq> Storage_objects"
  shows "evaluate s db req = DENY"
proof -
  have "\<not> passes rls_policies s db req"
  proof (cases req)
    case (Select_req r)
    with assms show ?thesis
      by (cases r) (simp_all add: rls_policies_def policy_defs granted_def)
  next
    case (Insert_req r)
    with assms show ?thesis
      by (cases r) (simp_all add: rls_policies_def policy_defs granted_def)
  next
    case (Update_req old new)
    with assms show ?thesis
      by (cases new) (simp_all add: rls_policies_def policy_defs granted_def)
  next
    case (Delete_req r)
    with assms show ?thesis
      by (cases r) (simp_all add: rls_policies_def policy_defs granted_def)
  qed
  then show ?thesis
    by (simp add: evaluate_iff_passes flip: decision_cases)
qed

subsection \<open>Orders\<close>

text \<open>
  Claim C6. For an authenticated caller \<open>c\<close> and an order row: when the caller owns the
  order, select is allowed; when the caller's stored role is 'user' and the order belongs
  to somebody else, select is denied; when the caller's stored role is 'admin', select is
  allowed whoever owns the order.
\<close>

theorem order_select_own_or_admin:
  assumes "db_role s = Authenticated" and "uid s = Some c"
  shows "(user_id ord = c \<longrightarrow> evaluate s db (Select_req (Orders_row ord)) = ALLOW)
       \<and> (pk_profiles db \<and> profile_role db c = Some ''user'' \<and> user_id ord \<noteq> c \<longrightarrow>
            evaluate s db (Select_req (Orders_row ord)) = DENY)
       \<and> (profile_role db c = Some ''admin'' \<longrightarrow>
            evaluate s db (Select_req (Orders_row ord)) = ALLOW)"
proof (intro conjI impI)
  assume "user_id ord = c"
  then show "evaluate s db (Select_req (Orders_row ord)) = ALLOW"
    using assms by (simp add: evaluate_select)
next
  assume a: "pk_profiles db \<and> profile_role db c = Some ''user'' \<and> user_id ord \<noteq> c"
  then have "\<not> is_admin s db"
    using stored_role_not_admin[of db c "''user''" s] assms(2) by simp
  with a show "evaluate s db (Select_req (Orders_row ord)) = DENY"
    using assms by (auto simp add: evaluate_select simp flip: decision_cases)
next
  assume "profile_role db c = Some ''admin''"
  then have "is_admin s db"
    using stored_role_admin assms(2) by simp
  then show "evaluate s db (Select_req (Orders_row ord)) = ALLOW"
    using assms by (simp add: evaluate_select)
qed

theorem order_select_own_or_admin_witness:
  "evaluate \<lparr>db_role = Authenticated, uid = Some 1\<rparr>
      \<lparr>profiles = [\<lparr>profile_id = 1, email = None, role = ''user'', created_at = 0\<rparr>,
                   \<lparr>profile_id = 2, email = None, role = ''user'', created_at = 0\<rparr>,
                   \<lparr>profile_id = 3, email = None, role = ''admin'', created_at = 0\<rparr>]\<rparr>
      (Select_req (Orders_row \<lparr>order_id = 10, user_id = 1, order_status = ''Placed''\<rparr>)) = ALLOW
   \<and> evaluate \<lparr>db_role = Authenticated, uid = Some 2\<rparr>
      \<lparr>profiles = [\<lparr>profile_id = 1, email = None, role = ''user'', created_at = 0\<rparr>,
                   \<lparr>profile_id = 2, email = None, role = ''user'', created_at = 0\<rparr>,
                   \<lparr>profile_id = 3, email = None, role = ''admin'', created_at = 0\<rparr>]\<rparr>
      (Select_req (Orders_row \<lparr>order_id = 10, user_id = 1, order_status = ''Placed''\<rparr>)) = DENY
   \<and> evaluate \<lparr>db_role = Authenticated, uid = Some 3\<rparr>
      \<lparr>profiles = [\<lparr>profile_id = 1, email = None, role = ''user'', created_at = 0\<rparr>,
                   \<lparr>profile_id = 2, email = None, role = ''user'', created_at = 0\<rparr>,
                   \<lparr>profile_id = 3, email = None, role = ''admin'', created_at = 0\<rparr>]\<rparr>
      (Select_req (Orders_row \<lparr>order_id = 10, user_id = 1, order_status = ''Placed''\<rparr>)) = ALLOW"
  using order_select_own_or_admin
    [of "\<lparr>db_role = Authenticated, uid = Some 1\<rparr>" 1
        "\<lparr>order_id = 10, user_id = 1, order_status = ''Placed''\<rparr>"
        "\<lparr>profiles = [\<lparr>profile_id = 1, email = None, role = ''user'', created_at = 0\<rparr>,
                   \<lparr>profile_id = 2, email = None, role = ''user'', created_at = 0\<rparr>,
                   \<lparr>profile_id = 3, email = None, role = ''admin'', created_at = 0\<rparr>]\<rparr>"]
    order_select_own_or_admin
    [of "\<lparr>db_role = Authenticated, uid = Some 2\<rparr>" 2
        "\<lparr>order_id = 10, user_id = 1, order_status = ''Placed''\<rparr>"
        "\<lparr>profiles = [\<lparr>profile_id = 1, email = None, role = ''user'', created_at = 0\<rparr>,
                   \<lparr>profile_id = 2, email = None, role = ''user'', created_at = 0\<rparr>,
                   \<lparr>profile_id = 3, email = None, role = ''admin'', created_at = 0\<rparr>]\<rparr>"]
    order_select_own_or_admin
    [of "\<lparr>db_role = Authenticated, uid = Some 3\<rparr>" 3
        "\<lparr>order_id = 10, user_id = 1, order_status = ''Placed''\<rparr>"
        "\<lparr>profiles = [\<lparr>profile_id = 1, email = None, role = ''user'', created_at = 0\<rparr>,
                   \<lparr>profile_id = 2, email = None, role = ''user'', created_at = 0\<rparr>,
                   \<lparr>profile_id = 3, email = None, role = ''admin'', created_at = 0\<rparr>]\<rparr>"]
  by (simp add: pk_profiles_def profile_role_def)

subsection \<open>Default deny\<close>

text \<open>
  Claim C3. A request that no policy of the file explicitly allows is denied, and a request
  is allowed only when one of the enumerated policies allows it. Row level security is
  enabled on profiles, products, categories and orders, and on these four tables a caller
  without a session is denied everything.
\<close>

theorem default_deny:
  "((\<forall>p \<in> set rls_policies. \<not> allowed_by s db req p) \<longrightarrow> evaluate s db req = DENY)
   \<and> (evaluate s db req = ALLOW \<longrightarrow> (\<exists>p \<in> set rls_policies. allowed_by s db req p))
   \<and> rls_enabled Profiles \<and> rls_enabled Products \<and> rls_enabled Categories
   \<and> rls_enabled Orders
   \<and> (db_role s = Anon \<and> request_table req \<in> {Profiles, Products, Categories, Orders} \<longrightarrow>
        evaluate s db req = DENY)"
proof -
  have "request_table req \<in> {Profiles, Products, Categories, Orders} \<Longrightarrow>
        request_table req \<noteq> Storage_objects"
    by auto
  then show ?thesis
    using anon_denied_on_tables[of s req db]
    by (auto simp: evaluate_iff_passes passes_iff_allowed_by simp flip: decision_cases)
qed

theorem default_deny_witness:
  "evaluate \<lparr>db_role = Authenticated, uid = Some 2\<rparr>
        \<lparr>profiles = [\<lparr>profile_id = 2, email = None, role = ''user'', created_at = 0\<rparr>]\<rparr>
        (Delete_req (Categories_row \<lparr>category_id = ''c1'', category_name = ''Bags''\<rparr>)) = DENY
   \<and> evaluate \<lparr>db_role = Anon, uid = None\<rparr> \<lparr>profiles = []\<rparr>
        (Select_req (Categories_row \<lparr>category_id = ''c1'', category_name = ''Bags''\<rparr>)) = DENY"
proof -
  have h: "\<forall>p \<in> set rls_policies. \<not> allowed_by \<lparr>db_role = Authenticated, uid = Some 2\<rparr>
        \<lparr>profiles = [\<lparr>profile_id = 2, email = None, role = ''user'', created_at = 0\<rparr>]\<rparr>
        (Delete_req (Categories_row \<lparr>category_id = ''c1'', category_name = ''Bags''\<rparr>)) p"
    by (simp add: rls_policies_def policy_defs granted_def admin_only_def is_admin_def
          admin_row_def sql_and_def sql_eq_def sql_true_def)
  show ?thesis
    using h default_deny
      [of "\<lparr>db_role = Authenticated, uid = Some 2\<rparr>"
          "\<lparr>profiles = [\<lparr>profile_id = 2, email = None, role = ''user'', created_at = 0\<rparr>]\<rparr>"
          "Delete_req (Categories_row \<lparr>category_id = ''c1'', category_name = ''Bags''\<rparr>)"]
      default_deny
      [of "\<lparr>db_role = Anon, uid = None\<rparr>" "\<lparr>profiles = []\<rparr>"
          "Select_req (Categories_row \<lparr>category_id = ''c1'', category_name = ''Bags''\<rparr>)"]
    by simp
qed

lemma no_row_not_admin:
  assumes "uid s = None \<or> (\<exists>i. uid s = Some i \<and> rows_for db i = [])"
  shows "\<not> is_admin s db"
  using assms by (auto simp: is_admin_iff rows_for_def filter_empty_conv)

lemma evaluate_without_admin:
  assumes "\<not> is_admin s db"
  shows "evaluate s db req = ALLOW \<longleftrightarrow> role_free_grant s req"
proof (cases req)
  case (Select_req r)
  with assms show ?thesis by (cases r) (auto simp: evaluate_select)
next
  case (Insert_req r)
  with assms show ?thesis by (cases r) (auto simp: evaluate_insert)
next
  case (Update_req old new)
  with assms show ?thesis
    by (cases old; cases new) (auto simp: evaluate_update evaluate_update_tables)
next
  case (Delete_req r)
  with assms show ?thesis by (cases r) (auto simp: evaluate_delete)
qed

lemma getUserRole_fallback:
  assumes "\<not> has_supabase \<or> \<not> reachable \<or> authUser = None
           \<or> (\<exists>u. authUser = Some u \<and> (js_id u = None
                 \<or> (\<exists>i. js_id u = Some i \<and> filter (\<lambda>p. profile_id p = i) (visible_profiles s db) = [])))"
  shows "fst (getUserRole has_supabase reachable s db authUser now) = ROLE_USER"
  using assms by (auto simp: getUserRole_def split: option.splits list.splits)

subsection \<open>Failure of role resolution\<close>

text \<open>
  Claim C2, as stated, fails: an authenticated caller with no profile row is allowed to
  select a product, because \<open>products_select_authenticated\<close> does not consult the role.
\<close>

theorem unresolved_role_counterexample:
  "rows_for \<lparr>profiles = []\<rparr> 5 = []
   \<and> profile_role \<lparr>profiles = []\<rparr> 5 = None
   \<and> evaluate \<lparr>db_role = Authenticated, uid = Some 5\<rparr> \<lparr>profiles = []\<rparr>
        (Select_req (Products_row \<lparr>product_id = ''p-1'', product_name = ''Shoe'',
           product_category = ''Sneakers''\<rparr>)) = ALLOW"
  by (simp add: rows_for_def profile_role_def evaluate_select)

text \<open>
  Claim C2, amended. Every evaluation is ALLOW or DENY. When the caller's role cannot be
  resolved (there is no identity, or the identity has no profile row), the admin check is
  false, and a request is allowed exactly when the policies grant it without consulting
  the role; every other request is denied. On the client, \<open>getUserRole\<close> returns 'user'
  whenever there is no client, no user id, the database cannot be reached or no profile
  row is visible.
\<close>

theorem unresolved_role_fails_closed:
  assumes "uid s = None \<or> (\<exists>i. uid s = Some i \<and> rows_for db i = [])"
  shows "(evaluate s db req = ALLOW \<or> evaluate s db req = DENY)
       \<and> \<not> is_admin s db
       \<and> (evaluate s db req = ALLOW \<longleftrightarrow> role_free_grant s req)
       \<and> (\<not> role_free_grant s req \<longrightarrow> evaluate s db req = DENY)
       \<and> (\<not> has_supabase \<or> \<not> reachable \<or> authUser = None
            \<or> (\<exists>u. authUser = Some u \<and> (js_id u = None
                \<or> (\<exists>i. js_id u = Some i
                      \<and> filter (\<lambda>p. profile_id p = i) (visible_profiles s' db') = []))) \<longrightarrow>
          fst (getUserRole has_supabase reachable s' db' authUser now) = ROLE_USER)"
proof -
  have na: "\<not> is_admin s db"
    using assms by (rule no_row_not_admin)
  have d: "evaluate s db req = ALLOW \<or> evaluate s db req = DENY"
    by (cases "evaluate s db req") simp_all
  show ?thesis
    using na d evaluate_without_admin[OF na, of req]
      getUserRole_fallback[of has_supabase reachable authUser s' db' now]
    by (auto simp flip: decision_cases)
qed

theorem unresolved_role_fails_closed_witness:
  "\<not> is_admin \<lparr>db_role = Authenticated, uid = Some 5\<rparr> \<lparr>profiles = []\<rparr>
   \<and> evaluate \<lparr>db_role = Authenticated, uid = Some 5\<rparr> \<lparr>profiles = []\<rparr>
        (Insert_req (Categories_row \<lparr>category_id = ''c1'', category_name = ''Bags''\<rparr>)) = DENY
   \<and> fst (getUserRole True False \<lparr>db_role = Authenticated, uid = Some 5\<rparr> \<lparr>profiles = []\<rparr>
        (Some \<lparr>js_id = Some 5, js_email = None\<rparr>) 0) = ROLE_USER"
  using unresolved_role_fails_closed
    [of "\<lparr>db_role = Authenticated, uid = Some 5\<rparr>" "\<lparr>profiles = []\<rparr>"
        "Insert_req (Categories_row \<lparr>category_id = ''c1'', category_name = ''Bags''\<rparr>)"
        True False "Some \<lparr>js_id = Some 5, js_email = None\<rparr>"
        "\<lparr>db_role = Authenticated, uid = Some 5\<rparr>" "\<lparr>profiles = []\<rparr>" 0]
  by (simp add: rows_for_def)

subsection \<open>The bucket of the product images\<close>

text \<open>
  Claim C7, as stated, fails: with the bucket configured as 'media', the upload of an admin
  into the configured bucket is denied, and the same insert into the bucket
  'product-images', which is not the configured one, is allowed. The policies name the
  literal 'product-images'.
\<close>

theorem bucket_name_counterexample:
  "is_admin \<lparr>db_role = Authenticated, uid = Some 3\<rparr>
      \<lparr>profiles = [\<lparr>profile_id = 3, email = None, role = ''admin'', created_at = 0\<rparr>]\<rparr>
   \<and> evaluate \<lparr>db_role = Authenticated, uid = Some 3\<rparr>
        \<lparr>profiles = [\<lparr>profile_id = 3, email = None, role = ''admin'', created_at = 0\<rparr>]\<rparr>
        (Insert_req (upload_row (Some ''media'') ''products/1.jpg'')) = DENY
   \<and> PRODUCT_IMAGE_BUCKET (Some ''media'') \<noteq> ''product-images''
   \<and> evaluate \<lparr>db_role = Authenticated, uid = Some 3\<rparr>
        \<lparr>profiles = [\<lparr>profile_id = 3, email = None, role = ''admin'', created_at = 0\<rparr>]\<rparr>
        (Insert_req (Objects_row \<lparr>object_name = ''products/1.jpg'',
           bucket_id = Some ''product-images''\<rparr>)) = ALLOW"
  by (simp add: is_admin_iff upload_row_def PRODUCT_IMAGE_BUCKET_def evaluate_insert
        flip: decision_cases)

text \<open>
  Claim C7, amended. The client takes the bucket name from a configurable string that
  defaults to 'product-images'; the storage policies compare with the literal
  'product-images'. An object of any other bucket is denied by them for select, insert,
  update and delete, so an upload of the client is allowed exactly when the caller is an
  admin and the configured name is 'product-images' (unset, empty or that very string).
\<close>

theorem storage_policies_literal_bucket:
  "(bucket_id ob \<noteq> Some ''product-images'' \<longrightarrow>
      evaluate s db (Select_req (Objects_row ob)) = DENY
    \<and> evaluate s db (Insert_req (Objects_row ob)) = DENY
    \<and> evaluate s db (Update_req (Objects_row ob) new) = DENY
    \<and> evaluate s db (Update_req old (Objects_row ob)) = DENY
    \<and> evaluate s db (Delete_req (Objects_row ob)) = DENY)
   \<and> (evaluate s db (Insert_req (upload_row env imagePath)) = ALLOW \<longleftrightarrow>
        db_role s = Authenticated \<and> is_admin s db
        \<and> PRODUCT_IMAGE_BUCKET env = ''product-images'')
   \<and> (PRODUCT_IMAGE_BUCKET env = ''product-images'' \<longleftrightarrow>
        env = None \<or> env = Some [] \<or> env = Some ''product-images'')"
proof -
  have upd1: "evaluate s db (Update_req (Objects_row ob) new) = DENY"
    if "bucket_id ob \<noteq> Some ''product-images''"
    using that by (cases new) (simp_all add: evaluate_update evaluate_update_tables flip: decision_cases)
  have upd2: "evaluate s db (Update_req old (Objects_row ob)) = DENY"
    if "bucket_id ob \<noteq> Some ''product-images''"
    using that by (cases old) (simp_all add: evaluate_update evaluate_update_tables flip: decision_cases)
  have env: "PRODUCT_IMAGE_BUCKET env = ''product-images'' \<longleftrightarrow>
        env = None \<or> env = Some [] \<or> env = Some ''product-images''"
    by (auto simp: PRODUCT_IMAGE_BUCKET_def split: option.splits)
  show ?thesis
    using upd1 upd2 env
    by (auto simp: evaluate_select evaluate_insert evaluate_delete upload_row_def
          simp flip: decision_cases)
qed

theorem storage_policies_literal_bucket_witness:
  "evaluate \<lparr>db_role = Authenticated, uid = Some 3\<rparr>
        \<lparr>profiles = [\<lparr>profile_id = 3, email = None, role = ''admin'', created_at = 0\<rparr>]\<rparr>
        (Delete_req (Objects_row \<lparr>object_name = ''a.jpg'', bucket_id = Some ''media''\<rparr>)) = DENY
   \<and> evaluate \<lparr>db_role = Authenticated, uid = Some 3\<rparr>
        \<lparr>profiles = [\<lparr>profile_id = 3, email = None, role = ''admin'', created_at = 0\<rparr>]\<rparr>
        (Select_req (Objects_row \<lparr>object_name = ''a.jpg'', bucket_id = Some ''media''\<rparr>)) = DENY"
  using storage_policies_literal_bucket
    [of "\<lparr>object_name = ''a.jpg'', bucket_id = Some ''media''\<rparr>"
        "\<lparr>db_role = Authenticated, uid = Some 3\<rparr>"
        "\<lparr>profiles = [\<lparr>profile_id = 3, email = None, role = ''admin'', created_at = 0\<rparr>]\<rparr>"]
  by simp

subsection \<open>Profile provisioning\<close>

lemma rows_for_append:
  "rows_for (db\<lparr>profiles := profiles db @ [p]\<rparr>) j =
     rows_for db j @ (if profile_id p = j then [p] else [])"
  by (simp add: rows_for_def)

lemma rows_for_empty_iff: "rows_for db i = [] \<longleftrightarrow> \<not> list_ex (\<lambda>p. profile_id p = i) (profiles db)"
  by (auto simp: rows_for_def filter_empty_conv list_ex_iff)

lemma find_None_rows_for: "find (\<lambda>p. profile_id p = i) (profiles db) = None \<longleftrightarrow> rows_for db i = []"
  by (auto simp: rows_for_def filter_empty_conv find_None_iff)

lemma roles_after_email_update:
  "map role (filter (\<lambda>p. profile_id p = j)
       (map (\<lambda>p. if profile_id p = i then p\<lparr>email := e\<rparr> else p) xs)) =
   map role (filter (\<lambda>p. profile_id p = j) xs)"
  by (induction xs) auto

lemma ids_after_email_update:
  "map profile_id (map (\<lambda>p. if profile_id p = i then p\<lparr>email := e\<rparr> else p) xs) =
   map profile_id xs"
  by (induction xs) auto

lemma distinct_filter_length:
  "distinct (map f xs) \<Longrightarrow> length (filter (\<lambda>p. f p = i) xs) \<le> 1"
proof (induction xs)
  case Nil
  then show ?case by simp
next
  case (Cons x xs)
  show ?case
  proof (cases "f x = i")
    case True
    from Cons.prems have "f x \<notin> f ` set xs"
      by simp
    with True have "\<forall>p \<in> set xs. f p \<noteq> i"
      by blast
    then have "filter (\<lambda>p. f p = i) xs = []"
      by (simp add: filter_empty_conv)
    with True show ?thesis by simp
  next
    case False
    with Cons show ?thesis by simp
  qed
qed

lemma pk_rows_for_length:
  "pk_profiles db \<Longrightarrow> length (rows_for db i) \<le> 1"
  using distinct_filter_length[of profile_id "profiles db" i]
  by (simp add: pk_profiles_def rows_for_def)

text \<open>The trigger.\<close>

lemma handle_new_user_existing:
  "rows_for db (au_id u) \<noteq> [] \<Longrightarrow> handle_new_user db u now = Inr db"
  by (simp add: handle_new_user_def rows_for_empty_iff)

lemma handle_new_user_fresh:
  assumes "rows_for db (au_id u) = []" "handle_new_user db u now = Inr db1"
  shows "rows_for db1 (au_id u) =
           [\<lparr>profile_id = au_id u, email = au_email u, role = ''user'', created_at = now\<rparr>]"
    and "j \<noteq> au_id u \<Longrightarrow> rows_for db1 j = rows_for db j"
  using assms
  by (auto simp: handle_new_user_def rows_for_empty_iff rows_for_append split: if_splits)

lemma handle_new_user_pk:
  assumes "pk_profiles db" "handle_new_user db u now = Inr db1"
  shows "pk_profiles db1"
proof (cases "list_ex (\<lambda>p. profile_id p = au_id u) (profiles db)")
  case True
  with assms show ?thesis
    by (simp add: handle_new_user_def)
next
  case False
  then have "au_id u \<notin> profile_id ` set (profiles db)"
    by (auto simp: list_ex_iff)
  moreover from assms(2) False have "profiles db1 = profiles db @
      [\<lparr>profile_id = au_id u, email = au_email u, role = ''user'', created_at = now\<rparr>]"
    by (auto simp: handle_new_user_def split: if_splits)
  ultimately show ?thesis
    using assms(1) by (simp add: pk_profiles_def)
qed

text \<open>The upsert of the client.\<close>

lemma upsert_profile_roles:
  assumes "upsert_profile s db i e now = Inr db'"
  shows "(rows_for db j \<noteq> [] \<longrightarrow> map role (rows_for db' j) = map role (rows_for db j))
       \<and> (rows_for db j = [] \<longrightarrow> map role (rows_for db' j) \<in> {[], [''user'']})"
proof (cases "find (\<lambda>p. profile_id p = i) (profiles db)")
  case None
  then have e: "rows_for db i = []"
    by (simp add: find_None_rows_for)
  from assms None have "db' = db\<lparr>profiles := profiles db @
      [\<lparr>profile_id = i, email = e, role = ''user'', created_at = now\<rparr>]\<rparr>"
    by (simp add: upsert_profile_def Let_def split: if_splits)
  then show ?thesis
    using e by (auto simp: rows_for_append)
next
  case (Some old)
  with assms have "db' = db\<lparr>profiles :=
      map (\<lambda>p. if profile_id p = i then p\<lparr>email := e\<rparr> else p) (profiles db)\<rparr>"
    by (simp add: upsert_profile_def Let_def split: if_splits)
  then have "map role (rows_for db' j) = map role (rows_for db j)"
    by (simp add: rows_for_def roles_after_email_update)
  then show ?thesis by simp
qed

lemma upsert_profile_pk:
  assumes "pk_profiles db" "upsert_profile s db i e now = Inr db'"
  shows "pk_profiles db'"
proof (cases "find (\<lambda>p. profile_id p = i) (profiles db)")
  case None
  then have "i \<notin> profile_id ` set (profiles db)"
    by (auto simp: find_None_iff)
  moreover from assms None have "db' = db\<lparr>profiles := profiles db @
      [\<lparr>profile_id = i, email = e, role = ''user'', created_at = now\<rparr>]\<rparr>"
    by (simp add: upsert_profile_def Let_def split: if_splits)
  ultimately show ?thesis
    using assms(1) by (simp add: pk_profiles_def)
next
  case (Some old)
  with assms have "db' = db\<lparr>profiles :=
      map (\<lambda>p. if profile_id p = i then p\<lparr>email := e\<rparr> else p) (profiles db)\<rparr>"
    by (simp add: upsert_profile_def Let_def split: if_splits)
  then show ?thesis
    using assms(1) ids_after_email_update[of i e "profiles db"]
    by (simp add: pk_profiles_def del: map_map)
qed

lemma ensureUserProfile_cases:
  "snd (ensureUserProfile hs reach s db authUser now) = db
   \<or> (\<exists>i e. upsert_profile s db i e now = Inr (snd (ensureUserProfile hs reach s db authUser now)))"
  by (auto simp: ensureUserProfile_def split: option.splits sum.splits)

lemma ensureUserProfile_roles:
  "(rows_for db j \<noteq> [] \<longrightarrow>
      map role (rows_for (snd (ensureUserProfile hs reach s db authUser now)) j) =
      map role (rows_for db j))
   \<and> (rows_for db j = [] \<longrightarrow>
      map role (rows_for (snd (ensureUserProfile hs reach s db authUser now)) j)
        \<in> {[], [''user'']})"
  using ensureUserProfile_cases[of hs reach s db authUser now] upsert_profile_roles
  by (metis insertCI list.simps(8))

lemma ensureUserProfile_pk:
  "pk_profiles db \<Longrightarrow> pk_profiles (snd (ensureUserProfile hs reach s db authUser now))"
  using ensureUserProfile_cases[of hs reach s db authUser now] upsert_profile_pk
  by metis

lemma upsert_profile_row_present:
  assumes "upsert_profile s db i e now = Inr db'"
  shows "rows_for db' i \<noteq> []"
proof (cases "find (\<lambda>p. profile_id p = i) (profiles db)")
  case None
  with assms have "db' = db\<lparr>profiles := profiles db @
      [\<lparr>profile_id = i, email = e, role = ''user'', created_at = now\<rparr>]\<rparr>"
    by (simp add: upsert_profile_def Let_def split: if_splits)
  then show ?thesis
    by (simp add: rows_for_append)
next
  case (Some old)
  then have "rows_for db i \<noteq> []"
    using find_None_rows_for[of i db] by simp
  then have "map role (rows_for db' i) \<noteq> []"
    using upsert_profile_roles[OF assms, of i] by simp
  then show ?thesis by auto
qed

lemma ensureUserProfile_success:
  assumes "hs" "authUser = Some a" "js_id a = Some i"
    and "fst (ensureUserProfile hs reach s db authUser now) = False"
  shows "upsert_profile s db i (js_email a) now =
           Inr (snd (ensureUserProfile hs reach s db authUser now))"
  using assms by (auto simp: ensureUserProfile_def split: sum.splits if_splits)

text \<open>
  Claim C4. Profile provisioning is idempotent. When the trigger function has run for an
  identity, a second run for the same identity (whatever email and time it carries)
  returns and leaves the table as it is; the identity has exactly one profile row; the row
  has role 'user' if the first run created it; and a run that finds a row changes nothing,
  so a role is never overwritten. The upsert of the client, \<open>ensureUserProfile\<close>, keeps
  the primary key, never changes the role of a row that exists, gives a row it creates the
  role 'user', and when it reports no error the identity has exactly one row.
\<close>

theorem provisioning_idempotent:
  assumes "pk_profiles db" and "handle_new_user db u now = Inr db1" and "au_id u' = au_id u"
  shows "handle_new_user db1 u' now' = Inr db1
       \<and> length (rows_for db1 (au_id u)) = 1
       \<and> pk_profiles db1
       \<and> (rows_for db (au_id u) = [] \<longrightarrow> map role (rows_for db1 (au_id u)) = [''user''])
       \<and> (rows_for db (au_id u) \<noteq> [] \<longrightarrow> db1 = db)
       \<and> map role (rows_for (snd (ensureUserProfile hs reach s db1 authUser now')) (au_id u)) =
           map role (rows_for db1 (au_id u))
       \<and> (rows_for db j \<noteq> [] \<longrightarrow>
            map role (rows_for (snd (ensureUserProfile hs reach s db authUser now)) j) =
            map role (rows_for db j))
       \<and> (rows_for db j = [] \<longrightarrow>
            map role (rows_for (snd (ensureUserProfile hs reach s db authUser now)) j)
              \<in> {[], [''user'']})
       \<and> pk_profiles (snd (ensureUserProfile hs reach s db authUser now))
       \<and> (hs \<and> authUser = Some a \<and> js_id a = Some i
            \<and> fst (ensureUserProfile hs reach s db authUser now) = False \<longrightarrow>
            length (rows_for (snd (ensureUserProfile hs reach s db authUser now)) i) = 1)"
proof -
  have made: "length (rows_for (snd (ensureUserProfile hs reach s db authUser now)) i) = 1"
    if "hs \<and> authUser = Some a \<and> js_id a = Some i
        \<and> fst (ensureUserProfile hs reach s db authUser now) = False"
  proof -
    from that have "rows_for (snd (ensureUserProfile hs reach s db authUser now)) i \<noteq> []"
      using upsert_profile_row_present[OF ensureUserProfile_success] by blast
    then show ?thesis
      using pk_rows_for_length[OF ensureUserProfile_pk[OF assms(1)], of hs reach s authUser now i]
      by (cases "rows_for (snd (ensureUserProfile hs reach s db authUser now)) i") simp_all
  qed
  have pk1: "pk_profiles db1"
    using assms(1,2) by (rule handle_new_user_pk)
  have fresh: "map role (rows_for db1 (au_id u)) = [''user'']" if "rows_for db (au_id u) = []"
    using handle_new_user_fresh(1)[OF that assms(2)] by simp
  have same: "db1 = db" if "rows_for db (au_id u) \<noteq> []"
    using handle_new_user_existing[OF that, of now] assms(2) by simp
  have ne: "rows_for db1 (au_id u) \<noteq> []"
  proof (cases "rows_for db (au_id u) = []")
    case True
    then show ?thesis using fresh by auto
  next
    case False
    then show ?thesis using same by simp
  qed
  then have len: "length (rows_for db1 (au_id u)) = 1"
    using pk_rows_for_length[OF pk1, of "au_id u"]
    by (cases "rows_for db1 (au_id u)") simp_all
  have again: "handle_new_user db1 u' now' = Inr db1"
    using ne assms(3) handle_new_user_existing[of db1 u' now'] by simp
  have client: "map role (rows_for (snd (ensureUserProfile hs reach s db1 authUser now')) (au_id u)) =
           map role (rows_for db1 (au_id u))"
    using ne ensureUserProfile_roles[of db1 "au_id u" hs reach s authUser now'] by simp
  show ?thesis
    using again len pk1 fresh same client made
      ensureUserProfile_roles[of db j hs reach s authUser now]
      ensureUserProfile_pk[OF assms(1), of hs reach s authUser now]
    by blast
qed

theorem provisioning_idempotent_witness:
  "handle_new_user \<lparr>profiles = [\<lparr>profile_id = 1, email = Some ''a@x.org'', role = ''admin'', created_at = 0\<rparr>]\<rparr>
      \<lparr>au_id = 2, au_email = Some ''b@x.org''\<rparr> 5 =
     Inr \<lparr>profiles = [\<lparr>profile_id = 1, email = Some ''a@x.org'', role = ''admin'', created_at = 0\<rparr>,
                       \<lparr>profile_id = 2, email = Some ''b@x.org'', role = ''user'', created_at = 5\<rparr>]\<rparr>
   \<and> handle_new_user
        \<lparr>profiles = [\<lparr>profile_id = 1, email = Some ''a@x.org'', role = ''admin'', created_at = 0\<rparr>,
                     \<lparr>profile_id = 2, email = Some ''b@x.org'', role = ''user'', created_at = 5\<rparr>]\<rparr>
        \<lparr>au_id = 2, au_email = Some ''c@x.org''\<rparr> 9 =
     Inr \<lparr>profiles = [\<lparr>profile_id = 1, email = Some ''a@x.org'', role = ''admin'', created_at = 0\<rparr>,
                       \<lparr>profile_id = 2, email = Some ''b@x.org'', role = ''user'', created_at = 5\<rparr>]\<rparr>
   \<and> length (rows_for
        \<lparr>profiles = [\<lparr>profile_id = 1, email = Some ''a@x.org'', role = ''admin'', created_at = 0\<rparr>,
                     \<lparr>profile_id = 2, email = Some ''b@x.org'', role = ''user'', created_at = 5\<rparr>]\<rparr> 2) = 1
   \<and> map role (rows_for
        \<lparr>profiles = [\<lparr>profile_id = 1, email = Some ''a@x.org'', role = ''admin'', created_at = 0\<rparr>,
                     \<lparr>profile_id = 2, email = Some ''b@x.org'', role = ''user'', created_at = 5\<rparr>]\<rparr> 2) = [''user'']"
proof -
  have pk: "pk_profiles \<lparr>profiles = [\<lparr>profile_id = 1, email = Some ''a@x.org'', role = ''admin'', created_at = 0\<rparr>]\<rparr>"
    by (simp add: pk_profiles_def)
  have first: "handle_new_user \<lparr>profiles = [\<lparr>profile_id = 1, email = Some ''a@x.org'', role = ''admin'', created_at = 0\<rparr>]\<rparr>
      \<lparr>au_id = 2, au_email = Some ''b@x.org''\<rparr> 5 =
     Inr \<lparr>profiles = [\<lparr>profile_id = 1, email = Some ''a@x.org'', role = ''admin'', created_at = 0\<rparr>,
                       \<lparr>profile_id = 2, email = Some ''b@x.org'', role = ''user'', created_at = 5\<rparr>]\<rparr>"
    by (simp add: handle_new_user_def email_taken_def)
  have same: "au_id \<lparr>au_id = 2, au_email = Some ''c@x.org''\<rparr> = au_id \<lparr>au_id = 2, au_email = Some ''b@x.org''\<rparr>"
    by simp
  show ?thesis
    using first provisioning_idempotent[OF pk first same, of 9 True True
        "\<lparr>db_role = Authenticated, uid = Some 2\<rparr>" "Some \<lparr>js_id = Some 2, js_email = None\<rparr>" 2]
    by (simp add: rows_for_def)
qed

subsection \<open>Deleting a category\<close>

lemma find_category:
  assumes "distinct (map category_id cs)" "c \<in> set cs"
  shows "find (\<lambda>item. category_id item = category_id c) cs = Some c"
proof -
  from assms(2) obtain q where q: "find (\<lambda>item. category_id item = category_id c) cs = Some q"
    by (cases "find (\<lambda>item. category_id item = category_id c) cs") (auto simp: find_None_iff)
  then have "q \<in> set cs" "category_id q = category_id c"
    by (auto simp: find_Some_iff)
  with assms have "q = c"
    by (auto simp: distinct_map dest: inj_onD)
  with q show ?thesis by simp
qed

text \<open>
  Claim C8. Category ids being unique, the attempt to delete a category whose name some
  product carries is rejected: the handler only sets the error message, the list of
  categories is unchanged and the category is still in it. Whenever the category is gone
  after the call, no product carried its name; and when no product carries the name and
  the request to the database does not fail, the category is removed.
\<close>

theorem removeCategory_referenced_rejected:
  assumes "distinct (map category_id (categories st))" and "c \<in> set (categories st)"
  shows "((\<exists>p \<in> set (products st). product_category p = category_name c) \<longrightarrow>
            removeCategory has_supabase delete_error st (category_id c) =
              st\<lparr>adminMessage := ''Cannot delete a category that is used by existing products.''\<rparr>
          \<and> categories (removeCategory has_supabase delete_error st (category_id c)) = categories st
          \<and> c \<in> set (categories (removeCategory has_supabase delete_error st (category_id c))))
       \<and> (c \<notin> set (categories (removeCategory has_supabase delete_error st (category_id c))) \<longrightarrow>
            \<not> (\<exists>p \<in> set (products st). product_category p = category_name c))
       \<and> ((\<forall>p \<in> set (products st). product_category p \<noteq> category_name c)
            \<and> (has_supabase \<longrightarrow> delete_error = None) \<longrightarrow>
            c \<notin> set (categories (removeCategory has_supabase delete_error st (category_id c)))
          \<and> adminMessage (removeCategory has_supabase delete_error st (category_id c)) =
              ''Category removed.'')"
proof -
  have f: "find (\<lambda>item. category_id item = category_id c) (categories st) = Some c"
    using assms by (rule find_category)
  show ?thesis
    using assms(2) by (auto simp: removeCategory_def f list_ex_iff Let_def split: option.splits)
qed

theorem removeCategory_referenced_rejected_witness:
  "removeCategory True None
      \<lparr>categories = [\<lparr>category_id = ''c1'', category_name = ''Bags''\<rparr>,
                     \<lparr>category_id = ''c2'', category_name = ''Watches''\<rparr>],
       products = [\<lparr>product_id = ''p1'', product_name = ''Tote'', product_category = ''Bags''\<rparr>],
       selectedCategory = ''All'', newProductCategory = ''Bags'', adminMessage = []\<rparr> ''c1'' =
     \<lparr>categories = [\<lparr>category_id = ''c1'', category_name = ''Bags''\<rparr>,
                    \<lparr>category_id = ''c2'', category_name = ''Watches''\<rparr>],
      products = [\<lparr>product_id = ''p1'', product_name = ''Tote'', product_category = ''Bags''\<rparr>],
      selectedCategory = ''All'', newProductCategory = ''Bags'',
      adminMessage = ''Cannot delete a category that is used by existing products.''\<rparr>
   \<and> categories (removeCategory True None
      \<lparr>categories = [\<lparr>category_id = ''c1'', category_name = ''Bags''\<rparr>,
                     \<lparr>category_id = ''c2'', category_name = ''Watches''\<rparr>],
       products = [\<lparr>product_id = ''p1'', product_name = ''Tote'', product_category = ''Bags''\<rparr>],
       selectedCategory = ''All'', newProductCategory = ''Bags'', adminMessage = []\<rparr> ''c2'') =
     [\<lparr>category_id = ''c1'', category_name = ''Bags''\<rparr>]"
  using removeCategory_referenced_rejected
    [of "\<lparr>categories = [\<lparr>category_id = ''c1'', category_name = ''Bags''\<rparr>,
                     \<lparr>category_id = ''c2'', category_name = ''Watches''\<rparr>],
       products = [\<lparr>product_id = ''p1'', product_name = ''Tote'', product_category = ''Bags''\<rparr>],
       selectedCategory = ''All'', newProductCategory = ''Bags'', adminMessage = []\<rparr>"
        "\<lparr>category_id = ''c1'', category_name = ''Bags''\<rparr>" True None]
    removeCategory_referenced_rejected
    [of "\<lparr>categories = [\<lparr>category_id = ''c1'', category_name = ''Bags''\<rparr>,
                     \<lparr>category_id = ''c2'', category_name = ''Watches''\<rparr>],
       products = [\<lparr>product_id = ''p1'', product_name = ''Tote'', product_category = ''Bags''\<rparr>],
       selectedCategory = ''All'', newProductCategory = ''Bags'', adminMessage = []\<rparr>"
        "\<lparr>category_id = ''c2'', category_name = ''Watches''\<rparr>" True None]
  by (simp add: removeCategory_def)

subsection \<open>The role shown by the client\<close>

text \<open>
  Claim C9. The timeout of the role lookup defaults to 4000 ms. A lookup that never
  settles, or settles after the timeout, makes \<open>getUserRoleWithTimeout\<close> resolve to
  'user'; a lookup that settles in time gives its own result. The fallback is in the
  client only: a caller whom the database stores as admin is allowed an admin-only insert
  even when the client has fallen back to 'user'.
\<close>

theorem role_lookup_timeout_fallback:
  "getUserRoleWithTimeout lookup ROLE_FETCH_TIMEOUT_MS = getUserRoleWithTimeout lookup 4000
   \<and> getUserRoleWithTimeout Never_settles timeoutMs = ''user''
   \<and> (timeoutMs < t \<longrightarrow> getUserRoleWithTimeout (Settles_at t r) timeoutMs = ''user'')
   \<and> (t < timeoutMs \<longrightarrow> getUserRoleWithTimeout (Settles_at t r) timeoutMs = r)
   \<and> (db_role s = Authenticated \<and> is_admin s db \<and> timeoutMs < t \<longrightarrow>
        getUserRoleWithTimeout (Settles_at t ROLE_ADMIN) timeoutMs = ''user''
        \<and> evaluate s db (Insert_req (Categories_row c)) = ALLOW)"
  by (simp add: ROLE_FETCH_TIMEOUT_MS_def getUserRoleWithTimeout_def ROLE_USER_def
        evaluate_insert)

theorem role_lookup_timeout_fallback_witness:
  "getUserRoleWithTimeout (Settles_at 4001 ''admin'') 4000 = ''user''
   \<and> getUserRoleWithTimeout (Settles_at 120 ''admin'') 4000 = ''admin''
   \<and> evaluate \<lparr>db_role = Authenticated, uid = Some 3\<rparr>
        \<lparr>profiles = [\<lparr>profile_id = 3, email = None, role = ''admin'', created_at = 0\<rparr>]\<rparr>
        (Insert_req (Categories_row \<lparr>category_id = ''c9'', category_name = ''Hats''\<rparr>)) = ALLOW"
  using role_lookup_timeout_fallback
    [of _ 4000 4001 "''admin''" "\<lparr>db_role = Authenticated, uid = Some 3\<rparr>"
        "\<lparr>profiles = [\<lparr>profile_id = 3, email = None, role = ''admin'', created_at = 0\<rparr>]\<rparr>"
        "\<lparr>category_id = ''c9'', category_name = ''Hats''\<rparr>"]
    role_lookup_timeout_fallback
    [of _ 4000 120 "''admin''" "\<lparr>db_role = Authenticated, uid = Some 3\<rparr>"
        "\<lparr>profiles = [\<lparr>profile_id = 3, email = None, role = ''admin'', created_at = 0\<rparr>]\<rparr>"
        "\<lparr>category_id = ''c9'', category_name = ''Hats''\<rparr>"]
  by (simp add: is_admin_iff ROLE_ADMIN_def)

subsection \<open>Normalised orders\<close>

lemma num_or_zero_not_NaN: "num_or_zero n \<noteq> NaN"
  by (simp add: num_or_zero_def)

text \<open>
  Claim C10. For every input record, the status of the normalised order is the input
  status when that is one of the five order statuses and 'Placed' otherwise, so it is
  always one of the five; total and items are never NaN; total is 0 when the input total
  is missing or not numeric (its conversion to a number is NaN), and items is 0 when
  \<open>items_count ?? items\<close> is missing or not numeric.
\<close>

theorem normalizeOrder_valid:
  "n_status (normalizeOrder h order fallback) =
     (if o_status order \<in> set (map Str ORDER_STATUSES) then o_status order else Str ''Placed'')
   \<and> n_status (normalizeOrder h order fallback) \<in> set (map Str ORDER_STATUSES)
   \<and> n_total (normalizeOrder h order fallback) \<noteq> NaN
   \<and> n_items (normalizeOrder h order fallback) \<noteq> NaN
   \<and> (o_total order = Undefined \<or> Number h (o_total order) = NaN \<longrightarrow>
        n_total (normalizeOrder h order fallback) = Fin 0)
   \<and> (nullish (o_items_count order) (o_items order) = Undefined
        \<or> Number h (nullish (o_items_count order) (o_items order)) = NaN \<longrightarrow>
        n_items (normalizeOrder h order fallback) = Fin 0)"
proof -
  have "n_status (normalizeOrder h order fallback) \<in> set (map Str ORDER_STATUSES)"
    by (simp add: normalizeOrder_def includes_status_def ORDER_STATUSES_def)
  then show ?thesis
    by (auto simp: normalizeOrder_def includes_status_def num_or_zero_def)
qed

theorem normalizeOrder_valid_witness:
  "n_status (normalizeOrder
      \<lparr>str_to_num = (\<lambda>str. NaN), obj_to_num = (\<lambda>ref. NaN), num_to_str = (\<lambda>n. ''7''),
       obj_to_str = (\<lambda>ref. ''[object Object]''), today = ''2024-01-01''\<rparr>
      \<lparr>o_id = Num (Fin 7), o_status = Str ''Refunded'', o_order_date = Undefined,
       o_date = Undefined, o_total = Str ''abc'', o_items_count = Null, o_items = Undefined,
       o_user_id = Undefined, o_profiles_email = Undefined\<rparr>
      \<lparr>f_userId = Undefined, f_userEmail = Undefined\<rparr>) = Str ''Placed''
   \<and> n_total (normalizeOrder
      \<lparr>str_to_num = (\<lambda>str. NaN), obj_to_num = (\<lambda>ref. NaN), num_to_str = (\<lambda>n. ''7''),
       obj_to_str = (\<lambda>ref. ''[object Object]''), today = ''2024-01-01''\<rparr>
      \<lparr>o_id = Num (Fin 7), o_status = Str ''Refunded'', o_order_date = Undefined,
       o_date = Undefined, o_total = Str ''abc'', o_items_count = Null, o_items = Undefined,
       o_user_id = Undefined, o_profiles_email = Undefined\<rparr>
      \<lparr>f_userId = Undefined, f_userEmail = Undefined\<rparr>) = Fin 0
   \<and> n_items (normalizeOrder
      \<lparr>str_to_num = (\<lambda>str. NaN), obj_to_num = (\<lambda>ref. NaN), num_to_str = (\<lambda>n. ''7''),
       obj_to_str = (\<lambda>ref. ''[object Object]''), today = ''2024-01-01''\<rparr>
      \<lparr>o_id = Num (Fin 7), o_status = Str ''Refunded'', o_order_date = Undefined,
       o_date = Undefined, o_total = Str ''abc'', o_items_count = Null, o_items = Undefined,
       o_user_id = Undefined, o_profiles_email = Undefined\<rparr>
      \<lparr>f_userId = Undefined, f_userEmail = Undefined\<rparr>) = Fin 0"
  using normalizeOrder_valid
    [of "\<lparr>str_to_num = (\<lambda>str. NaN), obj_to_num = (\<lambda>ref. NaN), num_to_str = (\<lambda>n. ''7''),
       obj_to_str = (\<lambda>ref. ''[object Object]''), today = ''2024-01-01''\<rparr>"
      "\<lparr>o_id = Num (Fin 7), o_status = Str ''Refunded'', o_order_date = Undefined,
       o_date = Undefined, o_total = Str ''abc'', o_items_count = Null, o_items = Undefined,
       o_user_id = Undefined, o_profiles_email = Undefined\<rparr>"
      "\<lparr>f_userId = Undefined, f_userEmail = Undefined\<rparr>"]
  by (simp add: ORDER_STATUSES_def nullish_def)

end
